theory Spec2Isabelle
  imports Main "HOL-Library.Word"
begin

unbundle bit_operations_syntax

section \<open>Python values and exceptions\<close>

text \<open>
  The module \<^verbatim>\<open>pymdoccbor/mdoc/issuer.py\<close> builds plain Python values (dicts, lists,
  strings, ints, bytes, \<^verbatim>\<open>None\<close>, \<^verbatim>\<open>cbor2.CBORTag\<close>) and hands them to \<^verbatim>\<open>cbor2.dumps\<close>.
  A dict is an association list in insertion order (Python dicts iterate in insertion
  order); its keys are pairwise different.
\<close>

type_synonym byte = "8 word"

datatype pyval =
    PNone
  | PBool bool
  | PInt int
  | PStr string
  | PBytes "byte list"
  | PList "pyval list"
  | PDict "(pyval \<times> pyval) list"
  | PTag nat pyval

type_synonym pydict = "(pyval \<times> pyval) list"

text \<open>
  Exceptions by the place that raises them: \<open>MissingPrivateKey\<close> is raised by
  \<^verbatim>\<open>__init__\<close>; \<open>KeyError\<close> by the subscriptions \<^verbatim>\<open>doc["data"]\<close> and
  \<^verbatim>\<open>doc["doctype"]\<close>; \<open>Foreign x\<close> is the exception \<open>x\<close> raised inside a callee that is
  not part of this module (pycose, MsoIssuer, cbor2), which no \<^verbatim>\<open>try\<close> of this module
  intercepts.
\<close>

datatype 'x exn =
    MissingPrivateKey string
  | KeyError pyval
  | Foreign 'x

text \<open>\<^verbatim>\<open>d[k] = v\<close>: an existing key keeps its position, a new key goes last.\<close>

fun dict_set :: "('a \<times> 'b) list \<Rightarrow> 'a \<Rightarrow> 'b \<Rightarrow> ('a \<times> 'b) list" where
  "dict_set [] k v = [(k, v)]"
| "dict_set ((k', v') # d) k v =
     (if k' = k then (k', v) # d else (k', v') # dict_set d k v)"

text \<open>\<^verbatim>\<open>doc[key]\<close> on a dict, for a string key: a missing key raises KeyError.\<close>

definition getitem :: "pydict \<Rightarrow> string \<Rightarrow> 'x exn + pyval" where
  "getitem doc key =
     (case map_of doc (PStr key) of
        None \<Rightarrow> Inl (KeyError (PStr key))
      | Some v \<Rightarrow> Inr v)"

section \<open>The callees outside the module\<close>

text \<open>
  The key arguments of \<^verbatim>\<open>__init__\<close> and \<^verbatim>\<open>new\<close> by the \<^verbatim>\<open>isinstance\<close> tests of the source:
  a dict, a pycose \<^verbatim>\<open>EC2Key\<close>, any other pycose \<^verbatim>\<open>CoseKey\<close>, or something else.
  (\<^verbatim>\<open>EC2Key\<close> is a subclass of \<^verbatim>\<open>CoseKey\<close>; the source tests for it first.)
\<close>

datatype ('k, 'e) key_input =
    KeyDict pydict
  | KeyEC2 'e
  | KeyCose 'k
  | KeyOther pyval

text \<open>
  pycose, as far as the module calls it: \<^verbatim>\<open>CoseKey.from_dict\<close>, \<^verbatim>\<open>EC2Key.encode\<close> and
  \<^verbatim>\<open>CoseKey.decode\<close>. Each returns a value or raises.
\<close>

record ('k, 'e, 'x) pycose =
  from_dict :: "pydict \<Rightarrow> 'x + 'k"
  ec2_encode :: "'e \<Rightarrow> 'x + byte list"
  cose_decode :: "byte list \<Rightarrow> 'x + 'k"

text \<open>
  The MSO issuer \<^verbatim>\<open>pymdoccbor.mso.issuer.MsoIssuer\<close>, as far as the module calls it.
  \<open>mso_sign data key\<close> is \<^verbatim>\<open>msoi = MsoIssuer(data=data, private_key=key); mso = msoi.sign()\<close>
  and returns \<^verbatim>\<open>msoi.disclosure_map\<close> (namespace to digest id to value) with the signed
  object; \<open>mso_encode\<close> is \<^verbatim>\<open>mso.encode()\<close>. Both may raise, and both run in a world
  \<open>'w\<close> (the random salts, the clock) that they may change.
\<close>

type_synonym disclosure_map = "(pyval \<times> pydict) list"

record ('k, 'm, 'x, 'w) mso_issuer =
  mso_sign :: "pyval \<Rightarrow> 'k \<Rightarrow> 'w \<Rightarrow> ('x + disclosure_map \<times> 'm) \<times> 'w"
  mso_encode :: "'m \<Rightarrow> 'w \<Rightarrow> ('x + byte list) \<times> 'w"

section \<open>MdocCborIssuer\<close>

record 'k issuer =
  version :: string
  status :: int
  private_key :: 'k
  signed_mdoc :: pyval

text \<open>The \<^verbatim>\<open>if\<close>/\<^verbatim>\<open>elif\<close> chain of \<^verbatim>\<open>__init__\<close> over the shape of \<^verbatim>\<open>private_key\<close>.\<close>

definition init_private_key ::
  "('k, 'e, 'x) pycose \<Rightarrow> ('k, 'e) key_input \<Rightarrow> 'x exn + 'k" where
  "init_private_key lib pk =
     (case pk of
        KeyDict d \<Rightarrow>
          (case from_dict lib d of Inl x \<Rightarrow> Inl (Foreign x) | Inr k \<Rightarrow> Inr k)
      | KeyEC2 e \<Rightarrow>
          (case ec2_encode lib e of
             Inl x \<Rightarrow> Inl (Foreign x)
           | Inr ec2_encoded \<Rightarrow>
               (case cose_decode lib ec2_encoded of
                  Inl x \<Rightarrow> Inl (Foreign x)
                | Inr ec2_decoded \<Rightarrow> Inr ec2_decoded))
      | KeyCose k \<Rightarrow> Inr k
      | KeyOther _ \<Rightarrow> Inl (MissingPrivateKey ''You must provide a private key''))"

text \<open>\<^verbatim>\<open>__init__\<close>: an exception leaves no issuer object behind.\<close>

definition init ::
  "('k, 'e, 'x) pycose \<Rightarrow> ('k, 'e) key_input \<Rightarrow> 'x exn + 'k issuer" where
  "init lib pk =
     (case init_private_key lib pk of
        Inl e \<Rightarrow> Inl e
      | Inr k \<Rightarrow>
          Inr \<lparr>version = ''1.0'', status = 0, private_key = k, signed_mdoc = PDict []\<rparr>)"

text \<open>Lines 67 to 70 of \<^verbatim>\<open>new\<close>: a dict is parsed, anything else is kept as it is.\<close>

definition new_devicekeyinfo ::
  "('k, 'e, 'x) pycose \<Rightarrow> ('k, 'e) key_input \<Rightarrow> 'x exn + ('k, 'e) key_input" where
  "new_devicekeyinfo lib devicekeyinfo =
     (case devicekeyinfo of
        KeyDict d \<Rightarrow>
          (case from_dict lib d of Inl x \<Rightarrow> Inl (Foreign x) | Inr k \<Rightarrow> Inr (KeyCose k))
      | other \<Rightarrow> Inr other)"

text \<open>
  The argument \<^verbatim>\<open>data\<close> of \<^verbatim>\<open>new\<close>, typed \<^verbatim>\<open>Union[dict, List[dict]]\<close>: a dict, or a
  list whose elements are dicts.
\<close>

datatype data_input =
    DataDict pydict
  | DataList "pydict list"

text \<open>The argument \<^verbatim>\<open>doctype\<close>: \<^verbatim>\<open>Union[str, None]\<close>, \<^verbatim>\<open>None\<close> when omitted.\<close>

fun doctype_value :: "string option \<Rightarrow> pyval" where
  "doctype_value None = PNone"
| "doctype_value (Some s) = PStr s"

text \<open>Lines 72 and 73: a single dict becomes a list of one element.\<close>

fun new_data :: "data_input \<Rightarrow> string option \<Rightarrow> pydict list" where
  "new_data (DataDict d) doctype =
     [[(PStr ''doctype'', doctype_value doctype), (PStr ''data'', PDict d)]]"
| "new_data (DataList ds) doctype = ds"

text \<open>The inner comprehension, line 90: one \<^verbatim>\<open>CBORTag(24, value={k: v})\<close> per item.\<close>

definition tagged_entries :: "pydict \<Rightarrow> pyval list" where
  "tagged_entries dgst = map (\<lambda>(k, v). PTag 24 (PDict [(k, v)])) dgst"

text \<open>
  The dict comprehension of lines 88 to 93 over \<^verbatim>\<open>msoi.disclosure_map.items()\<close>: each
  namespace is stored into the dict under construction.
\<close>

definition name_spaces :: "disclosure_map \<Rightarrow> pydict" where
  "name_spaces dm =
     fold (\<lambda>(ns, dgst) acc. dict_set acc ns (PList (tagged_entries dgst))) dm []"

text \<open>
  The body of the loop, lines 78 to 100, in Python's evaluation order: \<^verbatim>\<open>doc["data"]\<close>,
  the MsoIssuer and its \<^verbatim>\<open>sign()\<close>, then the dict display: \<^verbatim>\<open>doc["doctype"]\<close>, the
  namespaces, \<^verbatim>\<open>mso.encode()\<close>.
\<close>

definition new_document ::
  "('k, 'm, 'x, 'w) mso_issuer \<Rightarrow> 'k \<Rightarrow> pydict \<Rightarrow> 'w \<Rightarrow> ('x exn + pyval) \<times> 'w" where
  "new_document col key doc w =
     (case getitem doc ''data'' of
        Inl e \<Rightarrow> (Inl e, w)
      | Inr d \<Rightarrow>
          (case mso_sign col d key w of
             (Inl x, w1) \<Rightarrow> (Inl (Foreign x), w1)
           | (Inr (dm, mso), w1) \<Rightarrow>
               (case getitem doc ''doctype'' of
                  Inl e \<Rightarrow> (Inl e, w1)
                | Inr dt \<Rightarrow>
                    (case mso_encode col mso w1 of
                       (Inl x, w2) \<Rightarrow> (Inl (Foreign x), w2)
                     | (Inr auth, w2) \<Rightarrow>
                         (Inr (PDict
                            [(PStr ''docType'', dt),
                             (PStr ''issuerSigned'', PDict
                                [(PStr ''nameSpaces'', PDict (name_spaces dm)),
                                 (PStr ''issuerAuth'', PBytes auth)])]),
                          w2)))))"

text \<open>
  The loop \<^verbatim>\<open>for doc in data\<close> with its accumulator \<^verbatim>\<open>documents\<close>; an exception ends it.
\<close>

fun new_documents ::
  "('k, 'm, 'x, 'w) mso_issuer \<Rightarrow> 'k \<Rightarrow> pydict list \<Rightarrow> pyval list \<Rightarrow> 'w
     \<Rightarrow> ('x exn + pyval list) \<times> 'w" where
  "new_documents col key [] documents w = (Inr documents, w)"
| "new_documents col key (doc # data) documents w =
     (case new_document col key doc w of
        (Inl e, w') \<Rightarrow> (Inl e, w')
      | (Inr document, w') \<Rightarrow> new_documents col key data (documents @ [document]) w')"

text \<open>Lines 104 to 108: the dict assigned to \<^verbatim>\<open>self.signed\<close>.\<close>

definition envelope :: "'k issuer \<Rightarrow> pyval list \<Rightarrow> pyval" where
  "envelope self documents =
     PDict [(PStr ''version'', PStr (version self)),
            (PStr ''documents'', PList documents),
            (PStr ''status'', PInt (status self))]"

text \<open>
  \<^verbatim>\<open>new\<close>: the result or the exception, the issuer afterwards, the world afterwards.
\<close>

definition new ::
  "('k, 'e, 'x) pycose \<Rightarrow> ('k, 'm, 'x, 'w) mso_issuer \<Rightarrow> data_input
     \<Rightarrow> ('k, 'e) key_input \<Rightarrow> string option \<Rightarrow> 'k issuer \<Rightarrow> 'w
     \<Rightarrow> ('x exn + pyval) \<times> 'k issuer \<times> 'w" where
  "new lib col data devicekeyinfo doctype self w =
     (case new_devicekeyinfo lib devicekeyinfo of
        Inl e \<Rightarrow> (Inl e, self, w)
      | Inr _ \<Rightarrow>
          (case new_documents col (private_key self) (new_data data doctype) [] w of
             (Inl e, w') \<Rightarrow> (Inl e, self, w')
           | (Inr documents, w') \<Rightarrow>
               (Inr (envelope self documents),
                self\<lparr>signed_mdoc := envelope self documents\<rparr>, w')))"

section \<open>Serialisation\<close>

text \<open>
  \<^verbatim>\<open>binascii.hexlify\<close>: two digits per byte, high nibble first, from the table
  \<^verbatim>\<open>0123456789abcdef\<close>.
\<close>

definition hex_table :: "byte list" where
  "hex_table = [0x30, 0x31, 0x32, 0x33, 0x34, 0x35, 0x36, 0x37, 0x38, 0x39,
                0x61, 0x62, 0x63, 0x64, 0x65, 0x66]"

definition hexlify :: "byte list \<Rightarrow> byte list" where
  "hexlify bs =
     concat (map (\<lambda>b. [hex_table ! unat (drop_bit 4 b), hex_table ! unat (b AND 0x0F)]) bs)"

text \<open>
  Reading lowercase hexadecimal text back: a digit is one of \<^verbatim>\<open>0\<close> to \<^verbatim>\<open>9\<close> or \<^verbatim>\<open>a\<close> to
  \<^verbatim>\<open>f\<close> (an uppercase digit is refused), and two digits give a byte.
\<close>

definition hex_value :: "byte \<Rightarrow> nat option" where
  "hex_value c =
     (if 0x30 \<le> c \<and> c \<le> 0x39 then Some (unat c - 0x30)
      else if 0x61 \<le> c \<and> c \<le> 0x66 then Some (unat c - 0x57)
      else None)"

fun unhex :: "byte list \<Rightarrow> byte list option" where
  "unhex [] = Some []"
| "unhex [h] = None"
| "unhex (h1 # h2 # hs) =
     (case (hex_value h1, hex_value h2, unhex hs) of
        (Some a, Some b, Some bs) \<Rightarrow> Some (of_nat (16 * a + b) # bs)
      | _ \<Rightarrow> None)"

text \<open>
  \<^verbatim>\<open>dump\<close> and \<^verbatim>\<open>dumps\<close>, over the encoder \<^verbatim>\<open>cbor2.dumps\<close>; each returns the issuer it
  leaves behind.
\<close>

definition dump ::
  "(pyval \<Rightarrow> 'x + byte list) \<Rightarrow> 'k issuer \<Rightarrow> ('x exn + byte list) \<times> 'k issuer" where
  "dump cbor2_dumps self =
     (case cbor2_dumps (signed_mdoc self) of
        Inl x \<Rightarrow> (Inl (Foreign x), self)
      | Inr bs \<Rightarrow> (Inr bs, self))"

definition dumps ::
  "(pyval \<Rightarrow> 'x + byte list) \<Rightarrow> 'k issuer \<Rightarrow> ('x exn + byte list) \<times> 'k issuer" where
  "dumps cbor2_dumps self =
     (case cbor2_dumps (signed_mdoc self) of
        Inl x \<Rightarrow> (Inl (Foreign x), self)
      | Inr bs \<Rightarrow> (Inr (hexlify bs), self))"

text \<open>
  The encoder of cbor2 on the values of the model (RFC 8949, definite lengths, a dict in
  its iteration order, the shortest head). \<open>encode_length\<close> is cbor2's function of that
  name: the major type and the argument.
\<close>

fun be_bytes :: "nat \<Rightarrow> nat \<Rightarrow> byte list" where
  "be_bytes 0 v = []"
| "be_bytes (Suc n) v = be_bytes n (v div 256) @ [of_nat (v mod 256)]"

definition encode_length :: "nat \<Rightarrow> nat \<Rightarrow> byte list" where
  "encode_length major n =
     (if n < 24 then [of_nat (major * 32 + n)]
      else if n < 256 then of_nat (major * 32 + 24) # be_bytes 1 n
      else if n < 65536 then of_nat (major * 32 + 25) # be_bytes 2 n
      else if n < 4294967296 then of_nat (major * 32 + 26) # be_bytes 4 n
      else of_nat (major * 32 + 27) # be_bytes 8 n)"

fun nat_bytes :: "nat \<Rightarrow> byte list" where
  "nat_bytes v = (if v < 256 then [of_nat v] else nat_bytes (v div 256) @ [of_nat (v mod 256)])"

declare nat_bytes.simps [simp del]

definition encode_int :: "int \<Rightarrow> byte list" where
  "encode_int i =
     (if i \<ge> 18446744073709551616 then
        encode_length 6 2 @ encode_length 2 (length (nat_bytes (nat i))) @ nat_bytes (nat i)
      else if i < - 18446744073709551616 then
        encode_length 6 3 @ encode_length 2 (length (nat_bytes (nat (- i - 1))))
          @ nat_bytes (nat (- i - 1))
      else if i \<ge> 0 then encode_length 0 (nat i)
      else encode_length 1 (nat (- (i + 1))))"

fun encode :: "pyval \<Rightarrow> byte list" where
  "encode PNone = [0xF6]"
| "encode (PBool b) = (if b then [0xF5] else [0xF4])"
| "encode (PInt i) = encode_int i"
| "encode (PStr s) = encode_length 3 (length s) @ map (\<lambda>c. of_nat (of_char c)) s"
| "encode (PBytes bs) = encode_length 2 (length bs) @ bs"
| "encode (PList xs) = encode_length 4 (length xs) @ concat (map encode xs)"
| "encode (PDict kvs) =
     encode_length 5 (length kvs) @ concat (map (\<lambda>kv. encode (fst kv) @ encode (snd kv)) kvs)"
| "encode (PTag t v) = encode_length 6 t @ encode v"

definition cbor2_dumps :: "pyval \<Rightarrow> 'x + byte list" where
  "cbor2_dumps obj = Inr (encode obj)"

section \<open>Reading the results\<close>

text \<open>
  Accessors used to state the properties: the value under a string key of a dict (None
  when the value is no dict or has no such key), and the documents of an envelope.
\<close>

fun field :: "string \<Rightarrow> pyval \<Rightarrow> pyval option" where
  "field key (PDict d) = map_of d (PStr key)"
| "field key _ = None"

definition env_documents :: "pyval \<Rightarrow> pyval list" where
  "env_documents env = (case field ''documents'' env of Some (PList ds) \<Rightarrow> ds | _ \<Rightarrow> [])"

definition doc_name_spaces :: "pyval \<Rightarrow> pyval option" where
  "doc_name_spaces document =
     (case field ''issuerSigned'' document of
        None \<Rightarrow> None
      | Some issuer_signed \<Rightarrow> field ''nameSpaces'' issuer_signed)"

text \<open>
  The entries of a document's namespaces, in order, and the reading of "wrapped in tag 24
  as an encoded CBOR byte string": tag 24 whose content is a byte string.
\<close>

definition doc_entries :: "pyval \<Rightarrow> pyval list" where
  "doc_entries document =
     (case doc_name_spaces document of
        Some (PDict nss) \<Rightarrow>
          concat (map (\<lambda>(ns, entries). case entries of PList es \<Rightarrow> es | _ \<Rightarrow> []) nss)
      | _ \<Rightarrow> [])"

fun is_encoded_cbor_item :: "pyval \<Rightarrow> bool" where
  "is_encoded_cbor_item (PTag t (PBytes bs)) = (t = 24)"
| "is_encoded_cbor_item _ = False"

text \<open>
  A key-lookup error as the outcome of a call, and a dict that has a key.
\<close>

fun is_KeyError :: "'x exn + 'a \<Rightarrow> bool" where
  "is_KeyError (Inl (KeyError k)) = True"
| "is_KeyError _ = False"

definition has_key :: "string \<Rightarrow> pydict \<Rightarrow> bool" where
  "has_key key doc = (map_of doc (PStr key) \<noteq> None)"

text \<open>
  The issuers a program can hold: one that \<^verbatim>\<open>__init__\<close> returned, or one that a call of
  \<^verbatim>\<open>new\<close> (successful or not) left behind.
\<close>

inductive reachable ::
  "('k, 'e, 'x) pycose \<Rightarrow> ('k, 'm, 'x, 'w) mso_issuer \<Rightarrow> 'k issuer \<Rightarrow> bool"
  for lib :: "('k, 'e, 'x) pycose" and col :: "('k, 'm, 'x, 'w) mso_issuer" where
  constructed: "init lib pk = Inr self \<Longrightarrow> reachable lib col self"
| called: "reachable lib col self \<Longrightarrow>
     new lib col data devicekeyinfo doctype self w = (r, self', w') \<Longrightarrow>
     reachable lib col self'"

section \<open>Sample collaborators and inputs\<close>

text \<open>
  A sample pycose and a sample MSO issuer, to run the module on concrete inputs. The
  sample issuer numbers the attributes of each namespace from the world's counter and
  rejects data that is no dict.
\<close>

definition sample_pycose :: "(nat, nat, string) pycose" where
  "sample_pycose =
     \<lparr>from_dict = (\<lambda>d. if d = [] then Inl ''invalid key'' else Inr (length d)),
      ec2_encode = (\<lambda>e. Inr [of_nat e]),
      cose_decode = (\<lambda>bs. case bs of [b] \<Rightarrow> Inr (unat b) | _ \<Rightarrow> Inl ''invalid encoding'')\<rparr>"

fun sample_disclosure :: "nat \<Rightarrow> pyval \<Rightarrow> pydict" where
  "sample_disclosure w (PDict attrs) =
     map (\<lambda>(i, a, v). (PInt (int i), PDict [(a, v)])) (enumerate w attrs)"
| "sample_disclosure w _ = []"

fun sample_sign :: "pyval \<Rightarrow> nat \<Rightarrow> nat \<Rightarrow> (string + disclosure_map \<times> nat) \<times> nat" where
  "sample_sign (PDict nss) key w =
     (Inr (map (\<lambda>(ns, attrs). (ns, sample_disclosure w attrs)) nss, key), Suc w)"
| "sample_sign _ key w = (Inl ''malformed data'', w)"

definition sample_mso_issuer :: "(nat, nat, string, nat) mso_issuer" where
  "sample_mso_issuer =
     \<lparr>mso_sign = sample_sign,
      mso_encode = (\<lambda>m w. if m = 0 then (Inl ''no key'', w) else (Inr [of_nat m], w))\<rparr>"

definition sample_issuer :: "nat issuer" where
  "sample_issuer = \<lparr>version = ''1.0'', status = 0, private_key = 7, signed_mdoc = PDict []\<rparr>"

definition mdl_data :: pydict where
  "mdl_data =
     [(PStr ''org.iso.18013.5.1'',
       PDict [(PStr ''given_name'', PStr ''ALICE''), (PStr ''family_name'', PStr ''DOE'')])]"

definition mdl_batch :: "pydict list" where
  "mdl_batch =
     [[(PStr ''doctype'', PStr ''org.iso.18013.5.1.mDL''), (PStr ''data'', PDict mdl_data)],
      [(PStr ''doctype'', PStr ''eu.europa.ec.eudi.pid.1''),
       (PStr ''data'', PDict
          [(PStr ''eu.europa.ec.eudi.pid.1'', PDict [(PStr ''age_over_18'', PBool True)])])]]"

definition failing_batch :: "pydict list" where
  "failing_batch =
     [[(PStr ''doctype'', PStr ''org.iso.18013.5.1.mDL''), (PStr ''data'', PDict mdl_data)],
      [(PStr ''doctype'', PStr ''org.iso.18013.5.1.mDL''), (PStr ''data'', PNone)]]"

definition no_doctype_batch :: "pydict list" where
  "no_doctype_batch = [[(PStr ''data'', PNone)]]"

definition no_data_batch :: "pydict list" where
  "no_data_batch = [[(PStr ''doctype'', PStr ''org.iso.18013.5.1.mDL'')]]"

definition only_data_batch :: "pydict list" where
  "only_data_batch = [[(PStr ''data'', PDict mdl_data)]]"

text \<open>What the sample collaborators make of the spec's scenario.\<close>

definition mdl_envelope :: pyval where
  "mdl_envelope =
     PDict
       [(PStr ''version'', PStr ''1.0''),
        (PStr ''documents'', PList
           [PDict
              [(PStr ''docType'', PStr ''org.iso.18013.5.1.mDL''),
               (PStr ''issuerSigned'', PDict
                  [(PStr ''nameSpaces'', PDict
                      [(PStr ''org.iso.18013.5.1'', PList
                          [PTag 24 (PDict [(PInt 0, PDict [(PStr ''given_name'', PStr ''ALICE'')])]),
                           PTag 24 (PDict [(PInt 1, PDict [(PStr ''family_name'', PStr ''DOE'')])])])]),
                   (PStr ''issuerAuth'', PBytes [7])])]]),
        (PStr ''status'', PInt 0)]"

section \<open>The loop and the comprehension\<close>

lemma dict_set_fresh: "k \<notin> fst ` set d \<Longrightarrow> dict_set d k v = d @ [(k, v)]"
  by (induction d) auto

lemma fold_dict_set_distinct:
  "distinct (map fst acc @ map fst dm) \<Longrightarrow>
   fold (\<lambda>(ns, dgst) acc. dict_set acc ns (g dgst)) dm acc = acc @ map (\<lambda>(ns, dgst). (ns, g dgst)) dm"
proof (induction dm arbitrary: acc)
  case Nil
  then show ?case by simp
next
  case (Cons p dm)
  obtain ns dgst where p: "p = (ns, dgst)" by (cases p)
  from Cons.prems p have fresh: "ns \<notin> fst ` set acc" by auto
  from Cons.prems p have "distinct (map fst (acc @ [(ns, g dgst)]) @ map fst dm)" by auto
  from Cons.IH [OF this] show ?case using p fresh by (simp add: dict_set_fresh)
qed

lemma name_spaces_distinct:
  "distinct (map fst dm) \<Longrightarrow>
   name_spaces dm = map (\<lambda>(ns, dgst). (ns, PList (tagged_entries dgst))) dm"
  unfolding name_spaces_def using fold_dict_set_distinct [of "[]" dm "\<lambda>dgst. PList (tagged_entries dgst)"] by simp

lemma new_document_Inr:
  fixes col :: "('k, 'm, 'x, 'w) mso_issuer"
  assumes "new_document col key doc w = (Inr document, w')"
  obtains d dm mso w1 dt auth where
    "getitem doc ''data'' = (Inr d :: 'x exn + pyval)"
    "mso_sign col d key w = (Inr (dm, mso), w1)"
    "getitem doc ''doctype'' = (Inr dt :: 'x exn + pyval)"
    "mso_encode col mso w1 = (Inr auth, w')"
    "document = PDict [(PStr ''docType'', dt),
        (PStr ''issuerSigned'', PDict [(PStr ''nameSpaces'', PDict (name_spaces dm)),
                                       (PStr ''issuerAuth'', PBytes auth)])]"
proof (cases "getitem doc ''data'' :: 'x exn + pyval")
  case (Inl e)
  with assms show ?thesis by (simp add: new_document_def)
next
  case d: (Inr d)
  obtain r1 w1 where s: "mso_sign col d key w = (r1, w1)" by (cases "mso_sign col d key w")
  show ?thesis
  proof (cases r1)
    case (Inl x)
    with assms d s show ?thesis by (simp add: new_document_def)
  next
    case (Inr p)
    obtain dm mso where p: "p = (dm, mso)" by (cases p)
    show ?thesis
    proof (cases "getitem doc ''doctype'' :: 'x exn + pyval")
      case (Inl e)
      with assms d s Inr p show ?thesis by (simp add: new_document_def)
    next
      case dt: (Inr dt)
      obtain r2 w2 where e: "mso_encode col mso w1 = (r2, w2)" by (cases "mso_encode col mso w1")
      show ?thesis
      proof (cases r2)
        case (Inl x)
        with assms d s Inr p dt e show ?thesis by (simp add: new_document_def)
      next
        case auth: (Inr auth)
        with assms d s Inr p dt e have "w2 = w'" and
          "document = PDict [(PStr ''docType'', dt),
            (PStr ''issuerSigned'', PDict [(PStr ''nameSpaces'', PDict (name_spaces dm)),
                                       (PStr ''issuerAuth'', PBytes auth)])]"
          by (simp_all add: new_document_def)
        with that d s Inr p dt e auth show ?thesis by blast
      qed
    qed
  qed
qed


lemma new_documents_acc:
  "new_documents col key data acc w =
     (case new_documents col key data [] w of
        (Inl e, w') \<Rightarrow> (Inl e, w')
      | (Inr ds, w') \<Rightarrow> (Inr (acc @ ds), w'))"
proof (induction data arbitrary: acc w)
  case Nil
  then show ?case by simp
next
  case (Cons doc data)
  obtain r w1 where step: "new_document col key doc w = (r, w1)"
    by (cases "new_document col key doc w")
  show ?case
  proof (cases r)
    case (Inl e)
    with step show ?thesis by simp
  next
    case (Inr document)
    obtain r2 w2 where rest: "new_documents col key data [] w1 = (r2, w2)"
      by (cases "new_documents col key data [] w1")
    have a: "new_documents col key data (acc @ [document]) w1 =
        (case (r2, w2) of
          (Inl e, w') \<Rightarrow> (Inl e, w') | (Inr ds, w') \<Rightarrow> (Inr ((acc @ [document]) @ ds), w'))"
      using Cons.IH [of "acc @ [document]" w1] rest by simp
    have b: "new_documents col key data [document] w1 =
        (case (r2, w2) of
          (Inl e, w') \<Rightarrow> (Inl e, w') | (Inr ds, w') \<Rightarrow> (Inr ([document] @ ds), w'))"
      using Cons.IH [of "[document]" w1] rest by simp
    show ?thesis
    proof (cases r2)
      case (Inl e)
      with step Inr a b show ?thesis by simp
    next
      case r2: (Inr ds)
      with step Inr a b show ?thesis by simp
    qed
  qed
qed

lemma new_documents_append:
  "new_documents col key (xs @ ys) acc w =
     (case new_documents col key xs acc w of
        (Inl e, w') \<Rightarrow> (Inl e, w')
      | (Inr acc', w') \<Rightarrow> new_documents col key ys acc' w')"
proof (induction xs arbitrary: acc w)
  case Nil
  then show ?case by simp
next
  case (Cons doc xs)
  obtain r w1 where step: "new_document col key doc w = (r, w1)"
    by (cases "new_document col key doc w")
  show ?case
  proof (cases r)
    case (Inl e)
    with step show ?thesis by simp
  next
    case (Inr document)
    with step Cons.IH [of "acc @ [document]" w1] show ?thesis by simp
  qed
qed

lemma new_documents_length:
  "new_documents col key data acc w = (Inr docs, w') \<Longrightarrow>
   length docs = length acc + length data"
proof (induction data arbitrary: acc w)
  case Nil
  then show ?case by simp
next
  case (Cons doc data)
  obtain r w1 where step: "new_document col key doc w = (r, w1)"
    by (cases "new_document col key doc w")
  show ?case
  proof (cases r)
    case (Inl e)
    with step Cons.prems show ?thesis by simp
  next
    case (Inr document)
    with step Cons.prems have "new_documents col key data (acc @ [document]) w1 = (Inr docs, w')"
      by simp
    from Cons.IH [OF this] show ?thesis by simp
  qed
qed

text \<open>The document at position i is the loop body run on element i, in the world the
  first i elements left.\<close>

lemma new_documents_nth:
  assumes all: "new_documents col key data [] w = (Inr docs, w')"
      and i: "i < length data"
      and pre: "new_documents col key (take i data) [] w = (Inr sofar, wi)"
  shows "\<exists>w1. new_document col key (data ! i) wi = (Inr (docs ! i), w1)"
proof -
  have split: "data = take i data @ (data ! i) # drop (Suc i) data"
    using i by (simp add: id_take_nth_drop)
  have len: "length sofar = i"
    using new_documents_length [OF pre] i by simp
  have "new_documents col key (take i data @ (data ! i) # drop (Suc i) data) [] w = (Inr docs, w')"
    using all split by simp
  then have rest: "new_documents col key ((data ! i) # drop (Suc i) data) sofar wi = (Inr docs, w')"
    by (simp add: new_documents_append pre)
  obtain r w1 where step: "new_document col key (data ! i) wi = (r, w1)"
    by (cases "new_document col key (data ! i) wi")
  show ?thesis
  proof (cases r)
    case (Inl e)
    with step rest show ?thesis by simp
  next
    case (Inr document)
    with step rest have tl: "new_documents col key (drop (Suc i) data) (sofar @ [document]) w1 = (Inr docs, w')"
      by simp
    obtain r2 w2 where r2: "new_documents col key (drop (Suc i) data) [] w1 = (r2, w2)"
      by (cases "new_documents col key (drop (Suc i) data) [] w1")
    have "\<exists>ds. docs = (sofar @ [document]) @ ds"
    proof (cases r2)
      case (Inl e)
      with tl r2 new_documents_acc [of col key "drop (Suc i) data" "sofar @ [document]" w1]
      show ?thesis by simp
    next
      case ds: (Inr ds)
      with tl r2 new_documents_acc [of col key "drop (Suc i) data" "sofar @ [document]" w1]
      show ?thesis by auto
    qed
    then obtain ds where "docs = (sofar @ [document]) @ ds" ..
    with len have "docs ! i = document" by (simp add: nth_append)
    with step Inr show ?thesis by simp
  qed
qed


section \<open>Hexadecimal text\<close>

lemma hex_value_table: "n < 16 \<Longrightarrow> hex_value (hex_table ! n) = Some n"
proof -
  assume n: "n < 16"
  have "list_all (\<lambda>n. hex_value (hex_table ! n) = Some n) [0..<16]"
    by code_simp
  then have "\<forall>m \<in> set [0..<16]. hex_value (hex_table ! m) = Some m"
    by (simp only: list_all_iff)
  moreover from n have "n \<in> set [0..<16]" by simp
  ultimately show ?thesis by blast
qed

lemma byte_bound: "unat (b :: byte) < 256"
proof -
  have "unat b < 2 ^ LENGTH(8)" by (rule unsigned_less)
  then show ?thesis by simp
qed

lemma high_nibble: "unat (drop_bit 4 (b :: byte)) = unat b div 16"
  by (simp add: unat_drop_bit_eq drop_bit_eq_div unat_div)

lemma low_nibble: "unat ((b :: byte) AND 0x0F) = unat b mod 16"
proof -
  have "(0x0F :: byte) = mask 4" by (simp add: mask_eq_exp_minus_1)
  then have "b AND 0x0F = take_bit 4 b" by (simp only: take_bit_eq_mask)
  then show ?thesis by (simp add: unsigned_take_bit_eq take_bit_eq_mod unat_mod)
qed


lemma hexlify_Cons:
  "hexlify (b # bs) =
     hex_table ! unat (drop_bit 4 b) # hex_table ! unat (b AND 0x0F) # hexlify bs"
  by (simp add: hexlify_def)

lemma unhex_hexlify: "unhex (hexlify bs) = Some bs"
proof (induction bs)
  case Nil
  then show ?case by (simp add: hexlify_def)
next
  case (Cons b bs)
  have "unat b div 16 < 16" using byte_bound [of b] by arith
  then have hi: "hex_value (hex_table ! unat (drop_bit 4 b)) = Some (unat b div 16)"
    unfolding high_nibble by (rule hex_value_table)
  have lo: "hex_value (hex_table ! unat (b AND 0x0F)) = Some (unat b mod 16)"
    unfolding low_nibble by (rule hex_value_table) simp
  have "16 * (unat b div 16) + unat b mod 16 = unat b" by arith
  then have rejoin: "(of_nat (16 * (unat b div 16) + unat b mod 16) :: byte) = b"
    by simp
  show ?case
    by (simp only: hexlify_Cons unhex.simps hi lo Cons.IH rejoin prod.case option.case)
qed

lemma length_hexlify: "length (hexlify bs) = 2 * length bs"
  by (induction bs) (simp_all add: hexlify_def)

section \<open>What a successful call returns\<close>

lemma new_Inr:
  fixes lib :: "('k, 'e, 'x) pycose" and col :: "('k, 'm, 'x, 'w) mso_issuer"
  assumes "new lib col data devicekeyinfo doctype self w = (Inr env, self', w')"
  obtains documents h where
    "new_devicekeyinfo lib devicekeyinfo = Inr h"
    "new_documents col (private_key self) (new_data data doctype) [] w = (Inr documents, w')"
    "env = envelope self documents"
    "self' = self\<lparr>signed_mdoc := envelope self documents\<rparr>"
proof (cases "new_devicekeyinfo lib devicekeyinfo")
  case (Inl e)
  with assms show ?thesis by (simp add: new_def)
next
  case h: (Inr h)
  obtain r w1 where run: "new_documents col (private_key self) (new_data data doctype) [] w = (r, w1)"
    by (cases "new_documents col (private_key self) (new_data data doctype) [] w")
  show ?thesis
  proof (cases r)
    case (Inl e)
    with assms h run show ?thesis by (simp add: new_def)
  next
    case (Inr documents)
    with assms h run have "w1 = w'" "env = envelope self documents"
      "self' = self\<lparr>signed_mdoc := envelope self documents\<rparr>"
      by (auto simp: new_def)
    with that h run Inr show ?thesis by blast
  qed
qed

lemma env_documents_envelope: "env_documents (envelope self documents) = documents"
  by (simp add: env_documents_def envelope_def)



section \<open>What a call leaves of the issuer\<close>

lemma new_result_cases:
  fixes lib :: "('k, 'e, 'x) pycose" and col :: "('k, 'm, 'x, 'w) mso_issuer"
  assumes "new lib col data devicekeyinfo doctype self w = (r, self', w')"
  shows "(isl r \<and> self' = self)
       \<or> (\<exists>documents. r = Inr (envelope self documents)
            \<and> self' = self\<lparr>signed_mdoc := envelope self documents\<rparr>)"
proof (cases "new_devicekeyinfo lib devicekeyinfo")
  case (Inl e)
  with assms show ?thesis by (auto simp: new_def)
next
  case h: (Inr h)
  obtain r1 w1 where run: "new_documents col (private_key self) (new_data data doctype) [] w = (r1, w1)"
    by (cases "new_documents col (private_key self) (new_data data doctype) [] w")
  show ?thesis
  proof (cases r1)
    case (Inl e)
    with assms h run show ?thesis by (auto simp: new_def)
  next
    case (Inr documents)
    with assms h run show ?thesis by (auto simp: new_def)
  qed
qed

lemma new_keeps_fields:
  fixes lib :: "('k, 'e, 'x) pycose" and col :: "('k, 'm, 'x, 'w) mso_issuer"
  assumes "new lib col data devicekeyinfo doctype self w = (r, self', w')"
  shows "version self' = version self \<and> status self' = status self
       \<and> private_key self' = private_key self"
  using new_result_cases [OF assms] by auto

lemma reachable_version_status:
  "reachable lib col self \<Longrightarrow> version self = ''1.0'' \<and> status self = 0"
proof (induction rule: reachable.induct)
  case (constructed pk self)
  then show ?case by (auto simp: init_def split: sum.splits)
next
  case (called self data devicekeyinfo doctype w r self' w')
  with new_keeps_fields [OF called.hyps(2)] show ?case by simp
qed

section \<open>Key lookups\<close>

lemma getitem_has_key:
  "(\<exists>v. getitem doc key = (Inr v :: 'x exn + pyval)) = has_key key doc"
  by (cases "map_of doc (PStr key)") (simp_all add: getitem_def has_key_def)

lemma getitem_missing:
  "\<not> has_key key doc \<Longrightarrow> getitem doc key = (Inl (KeyError (PStr key)) :: 'x exn + pyval)"
  by (simp add: getitem_def has_key_def)

lemma new_document_has_keys:
  fixes col :: "('k, 'm, 'x, 'w) mso_issuer"
  assumes "new_document col key doc w = (Inr document, w')"
  shows "has_key ''data'' doc \<and> has_key ''doctype'' doc"
proof (rule new_document_Inr [OF assms])
  fix d :: pyval and dt :: pyval
  assume "getitem doc ''data'' = (Inr d :: 'x exn + pyval)"
    and "getitem doc ''doctype'' = (Inr dt :: 'x exn + pyval)"
  then show ?thesis
    using getitem_has_key [of doc "''data''", where ?'x = 'x]
          getitem_has_key [of doc "''doctype''", where ?'x = 'x]
    by blast
qed

lemma new_document_KeyError:
  fixes col :: "('k, 'm, 'x, 'w) mso_issuer"
  assumes "new_document col key doc w = (Inl (KeyError k), w')"
  shows "\<not> has_key ''data'' doc \<or> \<not> has_key ''doctype'' doc"
proof (rule ccontr)
  assume "\<not> (\<not> has_key ''data'' doc \<or> \<not> has_key ''doctype'' doc)"
  then have hd: "has_key ''data'' doc" and ht: "has_key ''doctype'' doc" by simp_all
  from hd obtain d where d: "getitem doc ''data'' = (Inr d :: 'x exn + pyval)"
    using getitem_has_key [of doc "''data''", where ?'x = 'x] by blast
  from ht obtain dt where dt: "getitem doc ''doctype'' = (Inr dt :: 'x exn + pyval)"
    using getitem_has_key [of doc "''doctype''", where ?'x = 'x] by blast
  obtain r1 w1 where s: "mso_sign col d key w = (r1, w1)" by (cases "mso_sign col d key w")
  show False
  proof (cases r1)
    case (Inl x)
    with assms d s show False by (simp add: new_document_def)
  next
    case (Inr p)
    obtain dm mso where p: "p = (dm, mso)" by (cases p)
    obtain r2 w2 where e: "mso_encode col mso w1 = (r2, w2)" by (cases "mso_encode col mso w1")
    show False
    proof (cases r2)
      case (Inl x)
      with assms d s Inr p dt e show False by (simp add: new_document_def)
    next
      case auth: (Inr auth)
      with assms d s Inr p dt e show False by (simp add: new_document_def)
    qed
  qed
qed

lemma new_documents_KeyError:
  fixes col :: "('k, 'm, 'x, 'w) mso_issuer"
  shows "new_documents col key data acc w = (Inl (KeyError k), w') \<Longrightarrow>
    \<exists>doc \<in> set data. \<not> has_key ''data'' doc \<or> \<not> has_key ''doctype'' doc"
proof (induction data arbitrary: acc w)
  case Nil
  then show ?case by simp
next
  case (Cons doc data)
  obtain r w1 where step: "new_document col key doc w = (r, w1)"
    by (cases "new_document col key doc w")
  show ?case
  proof (cases r)
    case (Inl e)
    with step Cons.prems have "new_document col key doc w = (Inl (KeyError k), w')" by simp
    from new_document_KeyError [OF this] show ?thesis by simp
  next
    case (Inr document)
    with step Cons.prems
    have "new_documents col key data (acc @ [document]) w1 = (Inl (KeyError k), w')" by simp
    from Cons.IH [OF this] show ?thesis by simp
  qed
qed

lemma new_documents_Inr_has_keys:
  fixes col :: "('k, 'm, 'x, 'w) mso_issuer"
  shows "new_documents col key data acc w = (Inr docs, w') \<Longrightarrow>
    \<forall>doc \<in> set data. has_key ''data'' doc \<and> has_key ''doctype'' doc"
proof (induction data arbitrary: acc w)
  case Nil
  then show ?case by simp
next
  case (Cons doc data)
  obtain r w1 where step: "new_document col key doc w = (r, w1)"
    by (cases "new_document col key doc w")
  show ?case
  proof (cases r)
    case (Inl e)
    with step Cons.prems show ?thesis by simp
  next
    case (Inr document)
    with step have here: "new_document col key doc w = (Inr document, w1)" by simp
    from Inr step Cons.prems
    have "new_documents col key data (acc @ [document]) w1 = (Inr docs, w')" by simp
    from Cons.IH [OF this] new_document_has_keys [OF here] show ?thesis by simp
  qed
qed

section \<open>The spec's scenario at the sample collaborators\<close>

lemma sample_mdl_run:
  "new sample_pycose sample_mso_issuer (DataDict mdl_data) (KeyCose 4)
       (Some ''org.iso.18013.5.1.mDL'') sample_issuer 0
     = (Inr mdl_envelope, sample_issuer\<lparr>signed_mdoc := mdl_envelope\<rparr>, 1)"
  by (simp add: new_def new_devicekeyinfo_def new_document_def getitem_def mdl_data_def
        sample_mso_issuer_def sample_issuer_def mdl_envelope_def envelope_def
        name_spaces_def tagged_entries_def)

section \<open>The claims\<close>

text \<open>
  C1 holds on the code except in one point, where the code falls short of it. The spec
  has each entry wrapped in tag 24 as an encoded CBOR item: a byte string that holds the
  encoding of the singleton mapping. Line 90 builds \<^verbatim>\<open>CBORTag(24, value={k: v})\<close>: it uses
  tag 24 but leaves out the encoding step (\<^verbatim>\<open>cbor2.dumps\<close>), so the content of the tag is the
  mapping itself, and on the wire the tag is followed by a map (a1) where a byte string
  is due. The run below is the spec's scenario at the sample collaborators.
\<close>

theorem tagged_entry_holds_mapping:
  "new sample_pycose sample_mso_issuer (DataDict mdl_data) (KeyCose 4)
       (Some ''org.iso.18013.5.1.mDL'') sample_issuer 0
     = (Inr mdl_envelope, sample_issuer\<lparr>signed_mdoc := mdl_envelope\<rparr>, 1)
   \<and> doc_entries (env_documents mdl_envelope ! 0)
       = [PTag 24 (PDict [(PInt 0, PDict [(PStr ''given_name'', PStr ''ALICE'')])]),
          PTag 24 (PDict [(PInt 1, PDict [(PStr ''family_name'', PStr ''DOE'')])])]
   \<and> \<not> list_all is_encoded_cbor_item (doc_entries (env_documents mdl_envelope ! 0))
   \<and> take 3 (encode (PTag 24 (PDict [(PInt 0, PDict [(PStr ''given_name'', PStr ''ALICE'')])])))
       = [0xD8, 0x18, 0xA1]"
proof -
  have w: "take 3 (encode (PTag 24 (PDict [(PInt 0, PDict [(PStr ''given_name'', PStr ''ALICE'')])])))
       = [0xD8, 0x18, 0xA1]"
    by (simp add: encode_length_def encode_int_def)
  have e: "doc_entries (env_documents mdl_envelope ! 0)
       = [PTag 24 (PDict [(PInt 0, PDict [(PStr ''given_name'', PStr ''ALICE'')])]),
          PTag 24 (PDict [(PInt 1, PDict [(PStr ''family_name'', PStr ''DOE'')])])]"
    by (simp add: doc_entries_def doc_name_spaces_def env_documents_def mdl_envelope_def)
  have "\<not> list_all is_encoded_cbor_item
       [PTag 24 (PDict [(PInt 0, PDict [(PStr ''given_name'', PStr ''ALICE'')])]),
          PTag 24 (PDict [(PInt 1, PDict [(PStr ''family_name'', PStr ''DOE'')])])]"
    by simp
  with e w sample_mdl_run show ?thesis by simp
qed


text \<open>
  What does hold of the namespaces: for every element i that \<^verbatim>\<open>new\<close> processed on the way
  to an envelope, the document's \<^verbatim>\<open>issuerSigned.nameSpaces\<close> has the namespaces of the
  disclosure map the MSO issuer returned for that element, in its order, and each
  namespace maps to one entry per digest, in the order of the digests, each built by
  line 90 from the pair \<^verbatim>\<open>(k, v)\<close>. Nothing is sorted. (A dict has pairwise different keys:
  that is the premise on the namespaces.)
\<close>

lemma new_name_spaces_in_order:
  fixes lib :: "('k, 'e, 'x) pycose" and col :: "('k, 'm, 'x, 'w) mso_issuer"
  assumes ok: "new lib col data devicekeyinfo doctype self w = (Inr env, self', w')"
      and i: "i < length (new_data data doctype)"
      and pre: "new_documents col (private_key self) (take i (new_data data doctype)) [] w
                  = (Inr sofar, wi)"
      and d: "getitem (new_data data doctype ! i) ''data'' = (Inr d :: 'x exn + pyval)"
      and s: "mso_sign col d (private_key self) wi = (Inr (dm, mso), w1)"
      and dist: "distinct (map fst dm)"
  shows "doc_name_spaces (env_documents env ! i) =
           Some (PDict (map (\<lambda>(ns, dgst).
                   (ns, PList (map (\<lambda>(k, v). PTag 24 (PDict [(k, v)])) dgst))) dm))"
proof -
  from new_Inr [OF ok] obtain documents where
    run: "new_documents col (private_key self) (new_data data doctype) [] w = (Inr documents, w')"
    and env: "env = envelope self documents"
    by blast
  from new_documents_nth [OF run i pre] obtain w2 where
    step: "new_document col (private_key self) (new_data data doctype ! i) wi
             = (Inr (documents ! i), w2)"
    by blast
  show ?thesis
  proof (rule new_document_Inr [OF step])
    fix d' :: pyval and dm' :: disclosure_map and mso' :: 'm and w1' :: 'w
      and dt :: pyval and auth :: "byte list"
    assume d': "getitem (new_data data doctype ! i) ''data'' = (Inr d' :: 'x exn + pyval)"
      and s': "mso_sign col d' (private_key self) wi = (Inr (dm', mso'), w1')"
      and doc: "documents ! i = PDict [(PStr ''docType'', dt),
        (PStr ''issuerSigned'', PDict [(PStr ''nameSpaces'', PDict (name_spaces dm')),
                                       (PStr ''issuerAuth'', PBytes auth)])]"
    from d d' have "d' = d" by simp
    with s s' have "dm' = dm" by simp
    with doc have "doc_name_spaces (documents ! i) = Some (PDict (name_spaces dm))"
      by (simp add: doc_name_spaces_def)
    then have "doc_name_spaces (env_documents env ! i) = Some (PDict (name_spaces dm))"
      by (simp only: env env_documents_envelope)
    then show ?thesis
      by (simp only: name_spaces_distinct [OF dist] tagged_entries_def)
  qed
qed

text \<open>The spec's scenario with two attributes, at the sample collaborators.\<close>

lemma new_name_spaces_in_order_sample:
  "new sample_pycose sample_mso_issuer (DataDict mdl_data) (KeyCose 4)
       (Some ''org.iso.18013.5.1.mDL'') sample_issuer 0
     = (Inr mdl_envelope, sample_issuer\<lparr>signed_mdoc := mdl_envelope\<rparr>, 1)
   \<and> mso_sign sample_mso_issuer (PDict mdl_data) (private_key sample_issuer) 0
     = (Inr ([(PStr ''org.iso.18013.5.1'',
               [(PInt 0, PDict [(PStr ''given_name'', PStr ''ALICE'')]),
                (PInt 1, PDict [(PStr ''family_name'', PStr ''DOE'')])])], 7), 1)
   \<and> doc_name_spaces (env_documents mdl_envelope ! 0) =
       Some (PDict [(PStr ''org.iso.18013.5.1'', PList
          [PTag 24 (PDict [(PInt 0, PDict [(PStr ''given_name'', PStr ''ALICE'')])]),
           PTag 24 (PDict [(PInt 1, PDict [(PStr ''family_name'', PStr ''DOE'')])])])])"
proof -
  let ?dm = "[(PStr ''org.iso.18013.5.1'',
               [(PInt 0, PDict [(PStr ''given_name'', PStr ''ALICE'')]),
                (PInt 1, PDict [(PStr ''family_name'', PStr ''DOE'')])])]"
  have i: "0 < length (new_data (DataDict mdl_data) (Some ''org.iso.18013.5.1.mDL''))"
    by simp
  have pre: "new_documents sample_mso_issuer (private_key sample_issuer)
      (take 0 (new_data (DataDict mdl_data) (Some ''org.iso.18013.5.1.mDL''))) [] 0 = (Inr [], 0)"
    by simp
  have d: "getitem (new_data (DataDict mdl_data) (Some ''org.iso.18013.5.1.mDL'') ! 0) ''data''
      = (Inr (PDict mdl_data) :: string exn + pyval)"
    by (simp add: getitem_def)
  have s: "mso_sign sample_mso_issuer (PDict mdl_data) (private_key sample_issuer) 0
     = (Inr (?dm, 7), 1)"
    by (simp add: sample_mso_issuer_def sample_issuer_def mdl_data_def)
  have dist: "distinct (map fst ?dm)" by simp
  from new_name_spaces_in_order [OF sample_mdl_run i pre d s dist]
  have n: "doc_name_spaces (env_documents mdl_envelope ! 0) =
       Some (PDict [(PStr ''org.iso.18013.5.1'', PList
          [PTag 24 (PDict [(PInt 0, PDict [(PStr ''given_name'', PStr ''ALICE'')])]),
           PTag 24 (PDict [(PInt 1, PDict [(PStr ''family_name'', PStr ''DOE'')])])])])"
    by simp
  show ?thesis
    by (intro conjI) (rule sample_mdl_run, rule s, rule n)
qed




text \<open>
  C3. On any issuer a program can hold, a successful \<^verbatim>\<open>new\<close> stores exactly the envelope it
  returns, \<^verbatim>\<open>{version: "1.0", documents, status: 0}\<close>, with one document per element of
  this call's input; the envelope stored before has no part in it (the call returns the
  same envelope whatever was stored). So after \<^verbatim>\<open>new(batchA)\<close> and \<^verbatim>\<open>new(batchB)\<close> the stored
  envelope has \<^verbatim>\<open>len(batchB)\<close> documents.
\<close>

theorem new_replaces_envelope:
  fixes lib :: "('k, 'e, 'x) pycose" and col :: "('k, 'm, 'x, 'w) mso_issuer"
  assumes held: "reachable lib col self"
      and ok: "new lib col data devicekeyinfo doctype self w = (Inr env, self', w')"
  shows "signed_mdoc self' = env
       \<and> env = PDict [(PStr ''version'', PStr ''1.0''),
                      (PStr ''documents'', PList (env_documents env)),
                      (PStr ''status'', PInt 0)]
       \<and> length (env_documents env) = length (new_data data doctype)
       \<and> (\<forall>stored. fst (new lib col data devicekeyinfo doctype
                           (self\<lparr>signed_mdoc := stored\<rparr>) w) = Inr env)"
proof -
  from new_Inr [OF ok] obtain documents h where
    k: "new_devicekeyinfo lib devicekeyinfo = Inr h" and
    run: "new_documents col (private_key self) (new_data data doctype) [] w = (Inr documents, w')" and
    env: "env = envelope self documents" and
    self': "self' = self\<lparr>signed_mdoc := envelope self documents\<rparr>"
    by blast
  from reachable_version_status [OF held] have vs: "version self = ''1.0''" "status self = 0"
    by simp_all
  have a: "signed_mdoc self' = env" using env self' by simp
  have b: "env = PDict [(PStr ''version'', PStr ''1.0''),
                      (PStr ''documents'', PList (env_documents env)),
                      (PStr ''status'', PInt 0)]"
    using vs by (simp add: env env_documents_envelope) (simp add: envelope_def)
  have c: "length (env_documents env) = length (new_data data doctype)"
    using new_documents_length [OF run] by (simp add: env env_documents_envelope)
  have d: "fst (new lib col data devicekeyinfo doctype (self\<lparr>signed_mdoc := stored\<rparr>) w) = Inr env"
    for stored
    using k run by (simp add: new_def env envelope_def)
  from a b c d show ?thesis by blast
qed

text \<open>
  The sample issuer, first a batch of two documents, then a single document: one
  document is stored, not three.
\<close>

theorem new_replaces_envelope_witness:
  "\<exists>envA self1 w1 envB self2 w2.
     init sample_pycose (KeyCose 7) = Inr sample_issuer
     \<and> new sample_pycose sample_mso_issuer (DataList mdl_batch) (KeyCose 4) None sample_issuer 0
         = (Inr envA, self1, w1)
     \<and> length (env_documents envA) = 2
     \<and> new sample_pycose sample_mso_issuer (DataDict mdl_data) (KeyCose 4)
           (Some ''org.iso.18013.5.1.mDL'') self1 w1
         = (Inr envB, self2, w2)
     \<and> signed_mdoc self2 = envB
     \<and> length (env_documents envB) = 1"
proof -
  have i: "init sample_pycose (KeyCose 7) = Inr sample_issuer"
    by (simp add: init_def init_private_key_def sample_issuer_def)
  have k: "new_devicekeyinfo sample_pycose (KeyCose 4) = Inr (KeyCose 4)"
    by (simp add: new_devicekeyinfo_def)
  have "\<exists>envA.
     new sample_pycose sample_mso_issuer (DataList mdl_batch) (KeyCose 4) None sample_issuer 0
       = (Inr envA, sample_issuer\<lparr>signed_mdoc := envA\<rparr>, 2)"
    by (simp add: new_def k new_document_def getitem_def mdl_batch_def mdl_data_def
          sample_mso_issuer_def sample_issuer_def)
  then obtain envA where
    rA: "new sample_pycose sample_mso_issuer (DataList mdl_batch) (KeyCose 4) None sample_issuer 0
       = (Inr envA, sample_issuer\<lparr>signed_mdoc := envA\<rparr>, 2)"
    by blast
  have "\<exists>envB self2 w2.
     new sample_pycose sample_mso_issuer (DataDict mdl_data) (KeyCose 4)
           (Some ''org.iso.18013.5.1.mDL'') (sample_issuer\<lparr>signed_mdoc := envA\<rparr>) 2
         = (Inr envB, self2, w2)"
    by (simp add: new_def k new_document_def getitem_def mdl_data_def
          sample_mso_issuer_def sample_issuer_def)
  then obtain envB self2 w2 where
    rB: "new sample_pycose sample_mso_issuer (DataDict mdl_data) (KeyCose 4)
           (Some ''org.iso.18013.5.1.mDL'') (sample_issuer\<lparr>signed_mdoc := envA\<rparr>) 2
         = (Inr envB, self2, w2)"
    by blast
  have h0: "reachable sample_pycose sample_mso_issuer sample_issuer"
    by (rule reachable.constructed [OF i])
  have h1: "reachable sample_pycose sample_mso_issuer (sample_issuer\<lparr>signed_mdoc := envA\<rparr>)"
    by (rule reachable.called [OF h0 rA])
  from new_replaces_envelope [OF h0 rA] have lA: "length (env_documents envA) = 2"
    by (simp add: mdl_batch_def)
  from new_replaces_envelope [OF h1 rB] have sB: "signed_mdoc self2 = envB"
    and lB: "length (env_documents envB) = 1"
    by simp_all
  from i rA lA rB sB lB show ?thesis by blast
qed

text \<open>
  C4. \<^verbatim>\<open>__init__\<close> normalises the signing key by its shape: a dict is parsed by
  \<^verbatim>\<open>CoseKey.from_dict\<close>; an \<^verbatim>\<open>EC2Key\<close> is encoded and the encoding is decoded again by
  \<^verbatim>\<open>CoseKey.decode\<close>; a \<^verbatim>\<open>CoseKey\<close> is stored as it is; any other value raises
  \<^verbatim>\<open>MissingPrivateKey\<close> (the spec's MissingSigningKey) and no issuer exists afterwards.
  That exception is raised for no other shape.
\<close>

theorem init_normalizes_private_key:
  fixes lib :: "('k, 'e, 'x) pycose"
  shows "(from_dict lib d = Inr k \<longrightarrow>
            init lib (KeyDict d) =
              Inr \<lparr>version = ''1.0'', status = 0, private_key = k, signed_mdoc = PDict []\<rparr>)
       \<and> (ec2_encode lib e = Inr ec2_encoded \<and> cose_decode lib ec2_encoded = Inr ec2_decoded \<longrightarrow>
            init lib (KeyEC2 e) =
              Inr \<lparr>version = ''1.0'', status = 0, private_key = ec2_decoded,
                   signed_mdoc = PDict []\<rparr>)
       \<and> init lib (KeyCose h) =
            Inr \<lparr>version = ''1.0'', status = 0, private_key = h, signed_mdoc = PDict []\<rparr>
       \<and> init lib (KeyOther v) = Inl (MissingPrivateKey ''You must provide a private key'')
       \<and> (init lib pk = Inl (MissingPrivateKey msg) \<longrightarrow> (\<exists>v'. pk = KeyOther v'))"
proof -
  have last: "init lib pk = Inl (MissingPrivateKey msg) \<longrightarrow> (\<exists>v'. pk = KeyOther v')"
    by (cases pk) (auto simp: init_def init_private_key_def split: sum.splits)
  show ?thesis
    using last by (simp add: init_def init_private_key_def)
qed

text \<open>The four shapes at the sample pycose.\<close>

theorem init_normalizes_private_key_witness:
  "init sample_pycose (KeyDict [(PInt 1, PInt 2)]) =
     Inr \<lparr>version = ''1.0'', status = 0, private_key = 1, signed_mdoc = PDict []\<rparr>
   \<and> init sample_pycose (KeyEC2 5) =
     Inr \<lparr>version = ''1.0'', status = 0, private_key = 5, signed_mdoc = PDict []\<rparr>
   \<and> init sample_pycose (KeyCose 9) =
     Inr \<lparr>version = ''1.0'', status = 0, private_key = 9, signed_mdoc = PDict []\<rparr>
   \<and> init sample_pycose (KeyOther PNone) =
     Inl (MissingPrivateKey ''You must provide a private key'')"
proof -
  have a: "from_dict sample_pycose [(PInt 1, PInt 2)] = Inr 1"
    by (simp add: sample_pycose_def)
  have b: "ec2_encode sample_pycose 5 = Inr [5] \<and> cose_decode sample_pycose [5] = Inr 5"
    by (simp add: sample_pycose_def)
  from init_normalizes_private_key
         [of sample_pycose "[(PInt 1, PInt 2)]" 1 5 "[5]" 5 9 PNone "KeyOther PNone"]
       a b
  show ?thesis by blast
qed

text \<open>
  C5. A single dict is wrapped into a list of one element that carries the \<^verbatim>\<open>doctype\<close>
  argument: \<^verbatim>\<open>new\<close> on the dict is \<^verbatim>\<open>new\<close> on the list
  \<^verbatim>\<open>[{"doctype": doctype, "data": data}]\<close>. Nothing validates the doctype: as soon as
  \<^verbatim>\<open>devicekeyinfo\<close> is accepted and the MSO issuer signs and encodes, \<^verbatim>\<open>new\<close> returns and
  stores an envelope of exactly one document, whose \<^verbatim>\<open>docType\<close> is the supplied string, and
  is \<^verbatim>\<open>None\<close> (CBOR null) when the argument was omitted.
\<close>

theorem new_wraps_single_mapping:
  fixes lib :: "('k, 'e, 'x) pycose" and col :: "('k, 'm, 'x, 'w) mso_issuer"
  shows "new lib col (DataDict d) devicekeyinfo doctype self w =
           new lib col
             (DataList [[(PStr ''doctype'', (case doctype of None \<Rightarrow> PNone | Some t \<Rightarrow> PStr t)),
                         (PStr ''data'', PDict d)]])
             devicekeyinfo doctype' self w
       \<and> (new_devicekeyinfo lib devicekeyinfo = Inr h
            \<and> mso_sign col (PDict d) (private_key self) w = (Inr (dm, mso), w1)
            \<and> mso_encode col mso w1 = (Inr auth, w2) \<longrightarrow>
          (\<exists>env. env =
              PDict [(PStr ''version'', PStr (version self)),
                     (PStr ''documents'', PList
                        [PDict [(PStr ''docType'', PStr s),
                                (PStr ''issuerSigned'', PDict
                                   [(PStr ''nameSpaces'', PDict (name_spaces dm)),
                                    (PStr ''issuerAuth'', PBytes auth)])]]),
                     (PStr ''status'', PInt (status self))]
            \<and> new lib col (DataDict d) devicekeyinfo (Some s) self w
                = (Inr env, self\<lparr>signed_mdoc := env\<rparr>, w2)
            \<and> map (field ''docType'') (env_documents env) = [Some (PStr s)])
        \<and> (\<exists>env. env =
              PDict [(PStr ''version'', PStr (version self)),
                     (PStr ''documents'', PList
                        [PDict [(PStr ''docType'', PNone),
                                (PStr ''issuerSigned'', PDict
                                   [(PStr ''nameSpaces'', PDict (name_spaces dm)),
                                    (PStr ''issuerAuth'', PBytes auth)])]]),
                     (PStr ''status'', PInt (status self))]
            \<and> new lib col (DataDict d) devicekeyinfo None self w
                = (Inr env, self\<lparr>signed_mdoc := env\<rparr>, w2)
            \<and> map (field ''docType'') (env_documents env) = [Some PNone]))"
proof -
  have wrap: "new lib col (DataDict d) devicekeyinfo doctype self w =
           new lib col
             (DataList [[(PStr ''doctype'', (case doctype of None \<Rightarrow> PNone | Some t \<Rightarrow> PStr t)),
                         (PStr ''data'', PDict d)]])
             devicekeyinfo doctype' self w"
    by (cases doctype) (simp_all only: new_def new_data.simps doctype_value.simps option.case)
  have run: "new lib col (DataDict d) devicekeyinfo dt self w =
      (Inr (PDict [(PStr ''version'', PStr (version self)),
                     (PStr ''documents'', PList
                        [PDict [(PStr ''docType'', doctype_value dt),
                                (PStr ''issuerSigned'', PDict
                                   [(PStr ''nameSpaces'', PDict (name_spaces dm)),
                                    (PStr ''issuerAuth'', PBytes auth)])]]),
                     (PStr ''status'', PInt (status self))]),
       self\<lparr>signed_mdoc :=
          PDict [(PStr ''version'', PStr (version self)),
                     (PStr ''documents'', PList
                        [PDict [(PStr ''docType'', doctype_value dt),
                                (PStr ''issuerSigned'', PDict
                                   [(PStr ''nameSpaces'', PDict (name_spaces dm)),
                                    (PStr ''issuerAuth'', PBytes auth)])]]),
                     (PStr ''status'', PInt (status self))]\<rparr>,
       w2)"
    if "new_devicekeyinfo lib devicekeyinfo = Inr h"
      and "mso_sign col (PDict d) (private_key self) w = (Inr (dm, mso), w1)"
      and "mso_encode col mso w1 = (Inr auth, w2)"
    for dt
    using that by (simp add: new_def new_document_def getitem_def envelope_def)
  have obs: "map (field ''docType'') (env_documents
      (PDict [(PStr ''version'', v),
              (PStr ''documents'', PList [PDict [(PStr ''docType'', t), rest]]),
              (PStr ''status'', st)])) = [Some t]"
    for v t rest st
    by (simp add: env_documents_def)
  from run [of "Some s"] run [of None] obs wrap show ?thesis
    by (simp only: doctype_value.simps) blast
qed

text \<open>
  The spec's scenario at the sample collaborators, with the doctype
  \<^verbatim>\<open>org.iso.18013.5.1.mDL\<close> and without a doctype.
\<close>

theorem new_wraps_single_mapping_witness:
  "new sample_pycose sample_mso_issuer (DataDict mdl_data) (KeyCose 4)
       (Some ''org.iso.18013.5.1.mDL'') sample_issuer 0
     = (Inr (PDict [(PStr ''version'', PStr ''1.0''),
                    (PStr ''documents'', PList
                       [PDict [(PStr ''docType'', PStr ''org.iso.18013.5.1.mDL''),
                               (PStr ''issuerSigned'', PDict
                                  [(PStr ''nameSpaces'', PDict (name_spaces
                                      [(PStr ''org.iso.18013.5.1'',
                                        [(PInt 0, PDict [(PStr ''given_name'', PStr ''ALICE'')]),
                                         (PInt 1, PDict [(PStr ''family_name'', PStr ''DOE'')])])])),
                                   (PStr ''issuerAuth'', PBytes [7])])]]),
                    (PStr ''status'', PInt 0)]),
        sample_issuer\<lparr>signed_mdoc :=
           PDict [(PStr ''version'', PStr ''1.0''),
                    (PStr ''documents'', PList
                       [PDict [(PStr ''docType'', PStr ''org.iso.18013.5.1.mDL''),
                               (PStr ''issuerSigned'', PDict
                                  [(PStr ''nameSpaces'', PDict (name_spaces
                                      [(PStr ''org.iso.18013.5.1'',
                                        [(PInt 0, PDict [(PStr ''given_name'', PStr ''ALICE'')]),
                                         (PInt 1, PDict [(PStr ''family_name'', PStr ''DOE'')])])])),
                                   (PStr ''issuerAuth'', PBytes [7])])]]),
                    (PStr ''status'', PInt 0)]\<rparr>,
        1)
   \<and> fst (new sample_pycose sample_mso_issuer (DataDict mdl_data) (KeyCose 4) None
            sample_issuer 0)
     = Inr (PDict [(PStr ''version'', PStr ''1.0''),
                   (PStr ''documents'', PList
                      [PDict [(PStr ''docType'', PNone),
                              (PStr ''issuerSigned'', PDict
                                 [(PStr ''nameSpaces'', PDict (name_spaces
                                     [(PStr ''org.iso.18013.5.1'',
                                       [(PInt 0, PDict [(PStr ''given_name'', PStr ''ALICE'')]),
                                        (PInt 1, PDict [(PStr ''family_name'', PStr ''DOE'')])])])),
                                  (PStr ''issuerAuth'', PBytes [7])])]]),
                   (PStr ''status'', PInt 0)])"
proof -
  let ?dm = "[(PStr ''org.iso.18013.5.1'',
               [(PInt 0, PDict [(PStr ''given_name'', PStr ''ALICE'')]),
                (PInt 1, PDict [(PStr ''family_name'', PStr ''DOE'')])])]"
  have a: "new_devicekeyinfo sample_pycose (KeyCose 4) = Inr (KeyCose 4)"
    by (simp add: new_devicekeyinfo_def)
  have b: "mso_sign sample_mso_issuer (PDict mdl_data) (private_key sample_issuer) 0 =
      (Inr (?dm, 7), 1)"
    by (simp add: sample_mso_issuer_def sample_issuer_def mdl_data_def)
  have c: "mso_encode sample_mso_issuer 7 1 = (Inr [7], 1)"
    by (simp add: sample_mso_issuer_def)
  have v: "version sample_issuer = ''1.0''" "status sample_issuer = 0"
    by (simp_all add: sample_issuer_def)
  note t = new_wraps_single_mapping [where lib = sample_pycose and col = sample_mso_issuer
      and d = mdl_data and devicekeyinfo = "KeyCose 4" and self = sample_issuer and w = 0
      and h = "KeyCose 4" and dm = ?dm and mso = 7 and ?w1.0 = 1 and auth = "[7]"
      and ?w2.0 = 1 and s = "''org.iso.18013.5.1.mDL''" and doctype = None and doctype' = None]
  note both = mp [OF conjunct2 [OF t] conjI [OF a conjI [OF b c]]]
  from both show ?thesis
    by (simp add: v)
qed

text \<open>
  C6. \<^verbatim>\<open>dumps\<close> returns the lowercase hexadecimal text of the bytes \<^verbatim>\<open>dump\<close> returns on the
  same issuer (and raises what \<^verbatim>\<open>dump\<close> raises); neither changes the issuer, so a second
  call gives the same result. The text is two digits per byte and reads back, digit by
  digit from \<^verbatim>\<open>0123456789abcdef\<close>, as the bytes.
\<close>

theorem dumps_is_hex_of_dump:
  "fst (dumps enc self) = map_sum id hexlify (fst (dump enc self))
   \<and> snd (dump enc self) = self
   \<and> snd (dumps enc self) = self
   \<and> dump enc (snd (dump enc self)) = dump enc self
   \<and> dumps enc (snd (dumps enc self)) = dumps enc self
   \<and> unhex (hexlify bs) = Some bs
   \<and> length (hexlify bs) = 2 * length bs"
proof -
  have a: "fst (dumps enc self) = map_sum id hexlify (fst (dump enc self))"
    by (cases "enc (signed_mdoc self)") (simp_all add: dumps_def dump_def)
  have b: "snd (dump enc self) = self"
    by (cases "enc (signed_mdoc self)") (simp_all add: dump_def)
  have c: "snd (dumps enc self) = self"
    by (cases "enc (signed_mdoc self)") (simp_all add: dumps_def)
  from a b c unhex_hexlify [of bs] length_hexlify [of bs] show ?thesis by simp
qed

text \<open>The issuer as \<^verbatim>\<open>__init__\<close> leaves it: \<^verbatim>\<open>dump\<close> gives the byte a0, \<^verbatim>\<open>dumps\<close> the text "a0".\<close>

theorem dumps_is_hex_of_dump_witness:
  "fst (dump (cbor2_dumps :: pyval \<Rightarrow> string + byte list) sample_issuer) = Inr [0xA0]
   \<and> fst (dumps (cbor2_dumps :: pyval \<Rightarrow> string + byte list) sample_issuer) = Inr [0x61, 0x30]
   \<and> unhex [0x61, 0x30] = Some [0xA0]"
proof -
  have d: "fst (dump (cbor2_dumps :: pyval \<Rightarrow> string + byte list) sample_issuer) = Inr [0xA0]"
    by (simp add: dump_def cbor2_dumps_def sample_issuer_def encode_length_def)
  have h: "hexlify [0xA0] = [0x61, 0x30]"
    by code_simp
  from dumps_is_hex_of_dump [of "cbor2_dumps :: pyval \<Rightarrow> string + byte list" sample_issuer "[0xA0]"]
       d h
  show ?thesis by simp
qed

text \<open>
  C7, as the spec states it, fails: before any \<^verbatim>\<open>new\<close> the call \<^verbatim>\<open>dump()\<close> neither raises nor
  serialises \<^verbatim>\<open>{version: "1.0", documents: [], status: 0}\<close>. \<^verbatim>\<open>__init__\<close> stores the empty
  dict \<^verbatim>\<open>{}\<close>, whose encoding is the single byte a0; the default envelope would start
  with the byte a3.
\<close>

theorem dump_before_new_counterexample:
  "init sample_pycose (KeyCose 7) = Inr sample_issuer
   \<and> dump (cbor2_dumps :: pyval \<Rightarrow> string + byte list) sample_issuer
       = (Inr [0xA0], sample_issuer)
   \<and> \<not> (isl (fst (dump (cbor2_dumps :: pyval \<Rightarrow> string + byte list) sample_issuer))
         \<or> fst (dump (cbor2_dumps :: pyval \<Rightarrow> string + byte list) sample_issuer)
             = Inr (encode (PDict [(PStr ''version'', PStr ''1.0''),
                                   (PStr ''documents'', PList []),
                                   (PStr ''status'', PInt 0)])))"
proof -
  have i: "init sample_pycose (KeyCose 7) = Inr sample_issuer"
    by (simp add: init_def init_private_key_def sample_issuer_def)
  have d: "dump (cbor2_dumps :: pyval \<Rightarrow> string + byte list) sample_issuer
       = (Inr [0xA0], sample_issuer)"
    by (simp add: dump_def cbor2_dumps_def sample_issuer_def encode_length_def)
  have e: "encode (PDict [(PStr ''version'', PStr ''1.0''),
                                   (PStr ''documents'', PList []),
                                   (PStr ''status'', PInt 0)]) \<noteq> [0xA0]"
    by (simp add: encode_length_def)
  from i d e show ?thesis by auto
qed

text \<open>
  C7, amended: on an issuer fresh from \<^verbatim>\<open>__init__\<close>, \<^verbatim>\<open>dump()\<close> and \<^verbatim>\<open>dumps()\<close> serialise
  the stored empty dict \<^verbatim>\<open>{}\<close>: they return what \<^verbatim>\<open>cbor2.dumps({})\<close> returns (with cbor2's
  encoder the byte a0, and the text "a0"), raise only what the encoder raises, and leave
  the issuer as it is.
\<close>

theorem dump_before_new_serializes_empty_dict:
  fixes lib :: "('k, 'e, 'x) pycose" and enc :: "pyval \<Rightarrow> 'y + byte list"
  assumes "init lib pk = Inr self"
  shows "signed_mdoc self = PDict []
       \<and> dump enc self =
           (case enc (PDict []) of Inl x \<Rightarrow> Inl (Foreign x) | Inr bs \<Rightarrow> Inr bs, self)
       \<and> dumps enc self =
           (case enc (PDict []) of Inl x \<Rightarrow> Inl (Foreign x) | Inr bs \<Rightarrow> Inr (hexlify bs), self)
       \<and> dump (cbor2_dumps :: pyval \<Rightarrow> 'y + byte list) self = (Inr [0xA0], self)
       \<and> dumps (cbor2_dumps :: pyval \<Rightarrow> 'y + byte list) self = (Inr [0x61, 0x30], self)"
proof -
  from assms have s: "signed_mdoc self = PDict []"
    by (auto simp: init_def split: sum.splits)
  have h: "hexlify [0xA0] = [0x61, 0x30]"
    by code_simp
  have e: "encode (PDict []) = [0xA0]"
    by (simp add: encode_length_def)
  have a: "dump enc self =
           (case enc (PDict []) of Inl x \<Rightarrow> Inl (Foreign x) | Inr bs \<Rightarrow> Inr bs, self)"
    using s by (cases "enc (PDict [])") (simp_all add: dump_def)
  have b: "dumps enc self =
           (case enc (PDict []) of Inl x \<Rightarrow> Inl (Foreign x) | Inr bs \<Rightarrow> Inr (hexlify bs), self)"
    using s by (cases "enc (PDict [])") (simp_all add: dumps_def)
  have c: "dump (cbor2_dumps :: pyval \<Rightarrow> 'y + byte list) self = (Inr [0xA0], self)"
    using s e by (simp add: dump_def cbor2_dumps_def)
  have d: "dumps (cbor2_dumps :: pyval \<Rightarrow> 'y + byte list) self = (Inr [0x61, 0x30], self)"
    using s e h by (simp add: dumps_def cbor2_dumps_def)
  from s a b c d show ?thesis by simp
qed

text \<open>The issuer built from a key handle at the sample pycose.\<close>

theorem dump_before_new_serializes_empty_dict_witness:
  "init sample_pycose (KeyCose 7) = Inr sample_issuer
   \<and> signed_mdoc sample_issuer = PDict []
   \<and> dump (cbor2_dumps :: pyval \<Rightarrow> string + byte list) sample_issuer
       = (Inr [0xA0], sample_issuer)
   \<and> dumps (cbor2_dumps :: pyval \<Rightarrow> string + byte list) sample_issuer
       = (Inr [0x61, 0x30], sample_issuer)"
proof -
  have i: "init sample_pycose (KeyCose 7) = Inr sample_issuer"
    by (simp add: init_def init_private_key_def sample_issuer_def)
  from dump_before_new_serializes_empty_dict
         [OF i, of "cbor2_dumps :: pyval \<Rightarrow> string + byte list"] i
  show ?thesis by blast
qed

text \<open>
  C8. If the MSO issuer raises \<open>x\<close> on element j of the batch (in \<^verbatim>\<open>MsoIssuer(...)\<close> or
  \<^verbatim>\<open>sign()\<close>, or in \<^verbatim>\<open>mso.encode()\<close>), the elements before it having been processed, then
  \<^verbatim>\<open>new\<close> raises that same \<open>x\<close> and the issuer is exactly as before the call: the envelope
  stored by an earlier call is still there and nothing partial is stored.
\<close>

theorem new_propagates_collaborator_failure:
  fixes lib :: "('k, 'e, 'x) pycose" and col :: "('k, 'm, 'x, 'w) mso_issuer"
  assumes k: "new_devicekeyinfo lib devicekeyinfo = Inr h"
      and j: "j < length (new_data data doctype)"
      and pre: "new_documents col (private_key self) (take j (new_data data doctype)) [] w
                  = (Inr sofar, wj)"
      and d: "getitem (new_data data doctype ! j) ''data'' = (Inr d :: 'x exn + pyval)"
      and fail: "mso_sign col d (private_key self) wj = (Inl x, w')
               \<or> (\<exists>dm mso w1 dt.
                     mso_sign col d (private_key self) wj = (Inr (dm, mso), w1)
                   \<and> getitem (new_data data doctype ! j) ''doctype'' = (Inr dt :: 'x exn + pyval)
                   \<and> mso_encode col mso w1 = (Inl x, w'))"
  shows "new lib col data devicekeyinfo doctype self w = (Inl (Foreign x), self, w')"
proof -
  let ?ds = "new_data data doctype"
  have step: "new_document col (private_key self) (?ds ! j) wj = (Inl (Foreign x), w')"
    using fail
  proof
    assume "mso_sign col d (private_key self) wj = (Inl x, w')"
    with d show ?thesis by (simp add: new_document_def)
  next
    assume "\<exists>dm mso w1 dt.
                     mso_sign col d (private_key self) wj = (Inr (dm, mso), w1)
                   \<and> getitem (new_data data doctype ! j) ''doctype'' = (Inr dt :: 'x exn + pyval)
                   \<and> mso_encode col mso w1 = (Inl x, w')"
    then obtain dm mso w1 dt where
      "mso_sign col d (private_key self) wj = (Inr (dm, mso), w1)"
      "getitem (new_data data doctype ! j) ''doctype'' = (Inr dt :: 'x exn + pyval)"
      "mso_encode col mso w1 = (Inl x, w')"
      by blast
    with d show ?thesis by (simp add: new_document_def)
  qed
  have split: "?ds = take j ?ds @ (?ds ! j) # drop (Suc j) ?ds"
    using j by (simp add: id_take_nth_drop)
  have "new_documents col (private_key self) (take j ?ds @ (?ds ! j) # drop (Suc j) ?ds) [] w
      = (Inl (Foreign x), w')"
    by (simp add: new_documents_append pre step)
  with split have "new_documents col (private_key self) ?ds [] w = (Inl (Foreign x), w')"
    by simp
  with k show ?thesis by (simp add: new_def)
qed

text \<open>
  Two elements at the sample collaborators, the second with data the sample issuer
  rejects, on an issuer that holds the envelope of an earlier call.
\<close>

theorem new_propagates_collaborator_failure_witness:
  "new sample_pycose sample_mso_issuer (DataList failing_batch) (KeyCose 4) None
       (sample_issuer\<lparr>signed_mdoc := envelope sample_issuer []\<rparr>) 0
     = (Inl (Foreign ''malformed data''),
        sample_issuer\<lparr>signed_mdoc := envelope sample_issuer []\<rparr>, 1)"
proof -
  let ?self = "sample_issuer\<lparr>signed_mdoc := envelope sample_issuer []\<rparr>"
  have k: "new_devicekeyinfo sample_pycose (KeyCose 4) = Inr (KeyCose 4)"
    by (simp add: new_devicekeyinfo_def)
  have j: "1 < length (new_data (DataList failing_batch) None)"
    by (simp add: failing_batch_def)
  have "\<exists>sofar. new_documents sample_mso_issuer (private_key ?self)
            (take 1 (new_data (DataList failing_batch) None)) [] 0 = (Inr sofar, 1)"
    by (simp add: failing_batch_def new_document_def getitem_def mdl_data_def
          sample_mso_issuer_def sample_issuer_def)
  then obtain sofar where
    pre: "new_documents sample_mso_issuer (private_key ?self)
            (take 1 (new_data (DataList failing_batch) None)) [] 0 = (Inr sofar, 1)"
    by blast
  have d: "getitem (new_data (DataList failing_batch) None ! 1) ''data''
      = (Inr PNone :: string exn + pyval)"
    by (simp add: failing_batch_def getitem_def)
  have fail: "mso_sign sample_mso_issuer PNone (private_key ?self) 1 = (Inl ''malformed data'', 1)
     \<or> (\<exists>dm mso w1 dt.
           mso_sign sample_mso_issuer PNone (private_key ?self) 1 = (Inr (dm, mso), w1)
         \<and> getitem (new_data (DataList failing_batch) None ! 1) ''doctype''
             = (Inr dt :: string exn + pyval)
         \<and> mso_encode sample_mso_issuer mso w1 = (Inl ''malformed data'', 1))"
    by (simp add: sample_mso_issuer_def)
  show ?thesis
    by (rule new_propagates_collaborator_failure [OF k j pre d fail])
qed

text \<open>
  C9. The result of \<^verbatim>\<open>new\<close> does not depend on \<^verbatim>\<open>devicekeyinfo\<close>: for two accepted values
  (a dict that \<^verbatim>\<open>CoseKey.from_dict\<close> parses, or anything that is no dict and is kept as it
  is) and the same data, doctype, issuer and world, \<^verbatim>\<open>new\<close> returns the same envelope,
  leaves the same issuer and the same world. The normalised value is never read again.
\<close>

theorem new_ignores_devicekeyinfo:
  fixes lib :: "('k, 'e, 'x) pycose" and col :: "('k, 'm, 'x, 'w) mso_issuer"
  assumes "new_devicekeyinfo lib devicekeyinfo1 = Inr h1"
      and "new_devicekeyinfo lib devicekeyinfo2 = Inr h2"
  shows "new lib col data devicekeyinfo1 doctype self w =
         new lib col data devicekeyinfo2 doctype self w"
  using assms by (simp add: new_def)

text \<open>The two shapes at the sample pycose: a dict and a key handle.\<close>

theorem new_ignores_devicekeyinfo_witness:
  "new_devicekeyinfo sample_pycose (KeyDict [(PInt 1, PInt 2)]) = Inr (KeyCose 1)
   \<and> new_devicekeyinfo sample_pycose (KeyCose 4) = Inr (KeyCose 4)
   \<and> new sample_pycose sample_mso_issuer (DataDict mdl_data) (KeyDict [(PInt 1, PInt 2)])
         (Some ''org.iso.18013.5.1.mDL'') sample_issuer 0 =
       new sample_pycose sample_mso_issuer (DataDict mdl_data) (KeyCose 4)
         (Some ''org.iso.18013.5.1.mDL'') sample_issuer 0"
proof -
  have a: "new_devicekeyinfo sample_pycose (KeyDict [(PInt 1, PInt 2)]) = Inr (KeyCose 1)"
    by (simp add: new_devicekeyinfo_def sample_pycose_def)
  have b: "new_devicekeyinfo sample_pycose (KeyCose 4) = Inr (KeyCose 4)"
    by (simp add: new_devicekeyinfo_def)
  have "new sample_pycose sample_mso_issuer (DataDict mdl_data) (KeyDict [(PInt 1, PInt 2)])
         (Some ''org.iso.18013.5.1.mDL'') sample_issuer 0 =
       new sample_pycose sample_mso_issuer (DataDict mdl_data) (KeyCose 4)
         (Some ''org.iso.18013.5.1.mDL'') sample_issuer 0"
    by (rule new_ignores_devicekeyinfo [OF a b])
  with a b show ?thesis by simp
qed

text \<open>
  C10, as stated, fails in its first half: an element without \<^verbatim>\<open>"doctype"\<close> does not
  always make \<^verbatim>\<open>new\<close> raise a key-lookup error. \<^verbatim>\<open>doc["doctype"]\<close> is evaluated after
  \<^verbatim>\<open>MsoIssuer(...)\<close> and \<^verbatim>\<open>sign()\<close>; when those raise on the element's data, that exception
  is what \<^verbatim>\<open>new\<close> raises.
\<close>

theorem missing_key_counterexample:
  "\<not> has_key ''doctype'' (no_doctype_batch ! 0)
   \<and> new sample_pycose sample_mso_issuer (DataList no_doctype_batch) (KeyCose 4) None
         sample_issuer 0
       = (Inl (Foreign ''malformed data''), sample_issuer, 0)
   \<and> \<not> is_KeyError (fst (new sample_pycose sample_mso_issuer (DataList no_doctype_batch)
         (KeyCose 4) None sample_issuer 0))"
proof -
  have a: "\<not> has_key ''doctype'' (no_doctype_batch ! 0)"
    by (simp add: has_key_def no_doctype_batch_def)
  have b: "new sample_pycose sample_mso_issuer (DataList no_doctype_batch) (KeyCose 4) None
         sample_issuer 0
       = (Inl (Foreign ''malformed data''), sample_issuer, 0)"
    by (simp add: new_def new_devicekeyinfo_def new_document_def getitem_def
          no_doctype_batch_def sample_mso_issuer_def sample_issuer_def)
  from a b show ?thesis by simp
qed

text \<open>
  C10, amended. \<^verbatim>\<open>new\<close> subscripts every element with \<^verbatim>\<open>"data"\<close> and \<^verbatim>\<open>"doctype"\<close> without a
  guard, so on a list with an element that lacks either key \<^verbatim>\<open>new\<close> always raises and
  returns no envelope. The exception is the key-lookup error of element j when the
  elements before it were processed and either \<^verbatim>\<open>"data"\<close> is missing, or \<^verbatim>\<open>"doctype"\<close> is
  missing and the MSO issuer signed the element's data. When every element has both
  keys, \<^verbatim>\<open>new\<close> raises no key-lookup error.
\<close>

theorem new_key_lookups:
  fixes lib :: "('k, 'e, 'x) pycose" and col :: "('k, 'm, 'x, 'w) mso_issuer"
  shows "((\<exists>doc \<in> set ds. \<not> has_key ''data'' doc \<or> \<not> has_key ''doctype'' doc) \<longrightarrow>
            isl (fst (new lib col (DataList ds) devicekeyinfo doctype self w)))
       \<and> (new_devicekeyinfo lib devicekeyinfo = Inr h \<and> j < length ds
            \<and> new_documents col (private_key self) (take j ds) [] w = (Inr sofar, wj)
            \<and> \<not> has_key ''data'' (ds ! j) \<longrightarrow>
            new lib col (DataList ds) devicekeyinfo doctype self w
              = (Inl (KeyError (PStr ''data'')), self, wj))
       \<and> (new_devicekeyinfo lib devicekeyinfo = Inr h \<and> j < length ds
            \<and> new_documents col (private_key self) (take j ds) [] w = (Inr sofar, wj)
            \<and> getitem (ds ! j) ''data'' = (Inr d :: 'x exn + pyval)
            \<and> mso_sign col d (private_key self) wj = (Inr (dm, mso), w1)
            \<and> \<not> has_key ''doctype'' (ds ! j) \<longrightarrow>
            new lib col (DataList ds) devicekeyinfo doctype self w
              = (Inl (KeyError (PStr ''doctype'')), self, w1))
       \<and> ((\<forall>doc \<in> set ds. has_key ''data'' doc \<and> has_key ''doctype'' doc) \<longrightarrow>
            \<not> is_KeyError (fst (new lib col (DataList ds) devicekeyinfo doctype self w)))"
proof -
  let ?new = "new lib col (DataList ds) devicekeyinfo doctype self w"
  obtain r self' w' where res: "?new = (r, self', w')" by (cases ?new)
  have raises: "isl (fst ?new)"
    if miss: "\<exists>doc \<in> set ds. \<not> has_key ''data'' doc \<or> \<not> has_key ''doctype'' doc"
  proof (cases r)
    case (Inl e)
    with res show ?thesis by simp
  next
    case (Inr env)
    with res have ok: "?new = (Inr env, self', w')" by simp
    from new_Inr [OF ok] obtain documents where
      "new_documents col (private_key self) (new_data (DataList ds) doctype) [] w
         = (Inr documents, w')"
      by blast
    then have "new_documents col (private_key self) ds [] w = (Inr documents, w')" by simp
    from new_documents_Inr_has_keys [OF this] miss show ?thesis by blast
  qed
  have at_j: "?new = (Inl e, self, wx)"
    if k: "new_devicekeyinfo lib devicekeyinfo = Inr h" and j: "j < length ds"
      and pre: "new_documents col (private_key self) (take j ds) [] w = (Inr sofar, wj)"
      and step: "new_document col (private_key self) (ds ! j) wj = (Inl e, wx)"
    for e wx
  proof -
    have split: "ds = take j ds @ (ds ! j) # drop (Suc j) ds"
      using j by (simp add: id_take_nth_drop)
    have "new_documents col (private_key self) (take j ds @ (ds ! j) # drop (Suc j) ds) [] w
        = (Inl e, wx)"
      by (simp add: new_documents_append pre step)
    with split have "new_documents col (private_key self) ds [] w = (Inl e, wx)" by simp
    with k show ?thesis by (simp add: new_def)
  qed
  have no_data: "?new = (Inl (KeyError (PStr ''data'')), self, wj)"
    if k: "new_devicekeyinfo lib devicekeyinfo = Inr h" and j: "j < length ds"
      and pre: "new_documents col (private_key self) (take j ds) [] w = (Inr sofar, wj)"
      and miss: "\<not> has_key ''data'' (ds ! j)"
  proof -
    have "new_document col (private_key self) (ds ! j) wj = (Inl (KeyError (PStr ''data'')), wj)"
      by (simp add: new_document_def getitem_missing [OF miss])
    from at_j [OF k j pre this] show ?thesis .
  qed
  have no_doctype: "?new = (Inl (KeyError (PStr ''doctype'')), self, w1)"
    if k: "new_devicekeyinfo lib devicekeyinfo = Inr h" and j: "j < length ds"
      and pre: "new_documents col (private_key self) (take j ds) [] w = (Inr sofar, wj)"
      and d: "getitem (ds ! j) ''data'' = (Inr d :: 'x exn + pyval)"
      and s: "mso_sign col d (private_key self) wj = (Inr (dm, mso), w1)"
      and miss: "\<not> has_key ''doctype'' (ds ! j)"
  proof -
    have "new_document col (private_key self) (ds ! j) wj
        = (Inl (KeyError (PStr ''doctype'')), w1)"
      by (simp add: new_document_def d s getitem_missing [OF miss])
    from at_j [OF k j pre this] show ?thesis .
  qed
  have none: "\<not> is_KeyError (fst ?new)"
    if all: "\<forall>doc \<in> set ds. has_key ''data'' doc \<and> has_key ''doctype'' doc"
  proof
    assume "is_KeyError (fst ?new)"
    with res obtain key where r: "r = Inl (KeyError key)"
      by (cases r rule: is_KeyError.cases) simp_all
    show False
    proof (cases "new_devicekeyinfo lib devicekeyinfo")
      case (Inl e)
      then obtain x where "new_devicekeyinfo lib devicekeyinfo = Inl (Foreign x)"
        by (cases devicekeyinfo) (auto simp: new_devicekeyinfo_def split: sum.splits)
      with res r show False by (simp add: new_def)
    next
      case k: (Inr h')
      obtain r1 wx where run: "new_documents col (private_key self) ds [] w = (r1, wx)"
        by (cases "new_documents col (private_key self) ds [] w")
      show False
      proof (cases r1)
        case (Inl e)
        with res r k run have "new_documents col (private_key self) ds [] w
            = (Inl (KeyError key), wx)"
          by (simp add: new_def)
        from new_documents_KeyError [OF this] all show False by blast
      next
        case (Inr documents)
        with res r k run show False by (simp add: new_def)
      qed
    qed
  qed
  from raises no_data no_doctype none show ?thesis by (intro conjI impI) blast+
qed


text \<open>
  At the sample collaborators: an element without \<^verbatim>\<open>"data"\<close>, an element without
  \<^verbatim>\<open>"doctype"\<close> whose data the sample issuer signs, and a batch with both keys everywhere.
\<close>

theorem new_key_lookups_witness:
  "isl (fst (new sample_pycose sample_mso_issuer (DataList no_data_batch) (KeyCose 4) None
         sample_issuer 0))
   \<and> new sample_pycose sample_mso_issuer (DataList no_data_batch) (KeyCose 4) None
         sample_issuer 0
       = (Inl (KeyError (PStr ''data'')), sample_issuer, 0)
   \<and> new sample_pycose sample_mso_issuer (DataList only_data_batch) (KeyCose 4) None
         sample_issuer 0
       = (Inl (KeyError (PStr ''doctype'')), sample_issuer, 1)
   \<and> \<not> is_KeyError (fst (new sample_pycose sample_mso_issuer (DataList mdl_batch) (KeyCose 4)
         None sample_issuer 0))"
proof -
  let ?dm = "[(PStr ''org.iso.18013.5.1'',
               [(PInt 0, PDict [(PStr ''given_name'', PStr ''ALICE'')]),
                (PInt 1, PDict [(PStr ''family_name'', PStr ''DOE'')])])]"
  have k: "new_devicekeyinfo sample_pycose (KeyCose 4) = Inr (KeyCose 4)"
    by (simp add: new_devicekeyinfo_def)
  note t1 = new_key_lookups [where lib = sample_pycose and col = sample_mso_issuer
      and ds = no_data_batch and devicekeyinfo = "KeyCose 4" and doctype = None
      and self = sample_issuer and w = 0 and h = "KeyCose 4" and j = 0 and sofar = "[]"
      and wj = 0]
  note t2 = new_key_lookups [where lib = sample_pycose and col = sample_mso_issuer
      and ds = only_data_batch and devicekeyinfo = "KeyCose 4" and doctype = None
      and self = sample_issuer and w = 0 and h = "KeyCose 4" and j = 0 and sofar = "[]"
      and wj = 0 and d = "PDict mdl_data" and dm = ?dm and mso = 7 and ?w1.0 = 1]
  note t3 = new_key_lookups [where lib = sample_pycose and col = sample_mso_issuer
      and ds = mdl_batch and devicekeyinfo = "KeyCose 4" and doctype = None
      and self = sample_issuer and w = 0]
  have a1: "\<exists>doc \<in> set no_data_batch. \<not> has_key ''data'' doc \<or> \<not> has_key ''doctype'' doc"
    by (simp add: no_data_batch_def has_key_def)
  have a2: "0 < length no_data_batch
      \<and> new_documents sample_mso_issuer (private_key sample_issuer) (take 0 no_data_batch) [] 0
          = (Inr [], 0)
      \<and> \<not> has_key ''data'' (no_data_batch ! 0)"
    by (simp add: no_data_batch_def has_key_def)
  have b: "0 < length only_data_batch
      \<and> new_documents sample_mso_issuer (private_key sample_issuer) (take 0 only_data_batch) [] 0
          = (Inr [], 0)
      \<and> getitem (only_data_batch ! 0) ''data'' = (Inr (PDict mdl_data) :: string exn + pyval)
      \<and> mso_sign sample_mso_issuer (PDict mdl_data) (private_key sample_issuer) 0
          = (Inr (?dm, 7), 1)
      \<and> \<not> has_key ''doctype'' (only_data_batch ! 0)"
    by (simp add: only_data_batch_def has_key_def getitem_def sample_mso_issuer_def
          sample_issuer_def mdl_data_def)
  have c: "\<forall>doc \<in> set mdl_batch. has_key ''data'' doc \<and> has_key ''doctype'' doc"
    by (simp add: mdl_batch_def has_key_def)
  from t1 a1 have r1: "isl (fst (new sample_pycose sample_mso_issuer (DataList no_data_batch)
        (KeyCose 4) None sample_issuer 0))"
    by blast
  from t1 k a2 have r2: "new sample_pycose sample_mso_issuer (DataList no_data_batch) (KeyCose 4)
        None sample_issuer 0
       = (Inl (KeyError (PStr ''data'')), sample_issuer, 0)"
    by blast
  from t2 k b have r3: "new sample_pycose sample_mso_issuer (DataList only_data_batch) (KeyCose 4)
        None sample_issuer 0
       = (Inl (KeyError (PStr ''doctype'')), sample_issuer, 1)"
    by blast
  from t3 c have r4: "\<not> is_KeyError (fst (new sample_pycose sample_mso_issuer (DataList mdl_batch)
        (KeyCose 4) None sample_issuer 0))"
    by blast
  show ?thesis
    by (intro conjI) (rule r1, rule r2, rule r3, rule r4)
qed

end
